theory Spec2Isabelle
  imports Complex_Main
begin

section \<open>Knowledge distillation: the configuration and the loss step\<close>

text \<open>
  The notebook adds two classes to the training framework:
  \<^verbatim>\<open>KnowledgeDistillationTrainingArguments\<close>, which stores the blend weight \<open>alpha\<close> and
  the \<open>temperature\<close>, and \<^verbatim>\<open>KnowledgeDistillationTrainer\<close>, whose \<^verbatim>\<open>compute_loss\<close>
  blends the student's supervised loss with a temperature-softened Kullback-Leibler term
  against the teacher's logits.

  Tensor entries are idealised as real numbers. Where the arithmetic of the reals differs
  from the arithmetic of the program's floats by more than rounding, the difference is
  written out: a division by zero gives a value that is not finite (\<open>inf\<close> or \<open>nan\<close>), and
  whatever the loss step computes from such a value is not finite either.
\<close>

subsection \<open>Errors and numbers\<close>

datatype error =
    NoneTypeNotCallable     \<comment> \<open>TypeError: calling \<^verbatim>\<open>None\<close> as a model\<close>
  | ShapeMismatch           \<comment> \<open>RuntimeError: tensors of different shapes in a pointwise operation\<close>
  | FrameworkError string   \<comment> \<open>whatever a constructor or a forward pass of the framework raises\<close>

datatype fval = Fin real | NonFinite

fun nadd :: "fval \<Rightarrow> fval \<Rightarrow> fval" where
  "nadd (Fin a) (Fin b) = Fin (a + b)"
| "nadd _ _ = NonFinite"

fun nmul :: "fval \<Rightarrow> fval \<Rightarrow> fval" where
  "nmul (Fin a) (Fin b) = Fin (a * b)"
| "nmul _ _ = NonFinite"

text \<open>The sum of all entries, and the division of a sum by a count (\<open>0 / 0\<close> is \<open>nan\<close>).\<close>

fun nsum :: "fval list \<Rightarrow> fval" where
  "nsum [] = Fin 0"
| "nsum (x # xs) = nadd x (nsum xs)"

fun ndiv_count :: "fval \<Rightarrow> nat \<Rightarrow> fval" where
  "ndiv_count (Fin a) n = (if n = 0 then NonFinite else Fin (a / real n))"
| "ndiv_count NonFinite n = NonFinite"

subsection \<open>Tensors of logits and the framework's functions on them\<close>

text \<open>
  A tensor of logits is a list of rows, one row per example of the batch, one entry per
  class; its shape is the list of its row lengths.
\<close>

type_synonym tensor = "real list list"
type_synonym ntensor = "fval list list"

definition shape :: "'a list list \<Rightarrow> nat list" where
  "shape t = map length t"

text \<open>\<^verbatim>\<open>logits / temperature\<close>: every entry divided by the same Python float.\<close>

definition tensor_div :: "tensor \<Rightarrow> real \<Rightarrow> ntensor" where
  "tensor_div t d = map (map (\<lambda>x. if d = 0 then NonFinite else Fin (x / d))) t"

fun finite_row :: "fval list \<Rightarrow> real list option" where
  "finite_row [] = Some []"
| "finite_row (Fin x # xs) = map_option ((#) x) (finite_row xs)"
| "finite_row (NonFinite # xs) = None"

text \<open>
  \<^verbatim>\<open>F.softmax(., dim=-1)\<close> and \<^verbatim>\<open>F.log_softmax(., dim=-1)\<close> work row by row. A row that
  holds an entry that is not finite comes out as \<open>nan\<close> throughout (the rows this program
  builds with such entries come from a division by zero and have no finite entry).
\<close>

definition softmax_row :: "fval list \<Rightarrow> fval list" where
  "softmax_row xs =
     (case finite_row xs of
        None \<Rightarrow> map (\<lambda>_. NonFinite) xs
      | Some rs \<Rightarrow> map (\<lambda>x. Fin (exp x / sum_list (map exp rs))) rs)"

definition log_softmax_row :: "fval list \<Rightarrow> fval list" where
  "log_softmax_row xs =
     (case finite_row xs of
        None \<Rightarrow> map (\<lambda>_. NonFinite) xs
      | Some rs \<Rightarrow> map (\<lambda>x. Fin (x - ln (sum_list (map exp rs)))) rs)"

definition softmax :: "ntensor \<Rightarrow> ntensor" where
  "softmax t = map softmax_row t"

definition log_softmax :: "ntensor \<Rightarrow> ntensor" where
  "log_softmax t = map log_softmax_row t"

text \<open>
  \<^verbatim>\<open>nn.KLDivLoss(reduction="batchmean")(input, target)\<close>: \<open>input\<close> holds log-probabilities,
  \<open>target\<close> probabilities; the pointwise term is \<open>target * (log target - input)\<close>, the terms
  are summed over the whole tensor and the sum is divided by the number of rows of
  \<open>input\<close>. In HOL \<open>ln 0 = 0\<close>, so a probability \<open>0\<close> contributes \<open>0\<close>, as it does in
  the framework. Tensors of different shapes are refused here; the framework would first
  try to broadcast one onto the other, which is not modelled: a student and a teacher with
  different label spaces are a configuration error that the loss step does not handle, and
  nothing below is drawn from this branch.
\<close>

fun kl_point :: "fval \<Rightarrow> fval \<Rightarrow> fval" where
  "kl_point (Fin i) (Fin t) = Fin (t * (ln t - i))"
| "kl_point _ _ = NonFinite"

definition KLDivLoss_batchmean :: "ntensor \<Rightarrow> ntensor \<Rightarrow> error + fval" where
  "KLDivLoss_batchmean input target =
     (if shape input \<noteq> shape target then Inl ShapeMismatch
      else Inr (ndiv_count
                  (nsum (concat (map (\<lambda>(ri, rt). map (\<lambda>(i, t). kl_point i t) (zip ri rt))
                                     (zip input target))))
                  (length input)))"

subsection \<open>Models\<close>

text \<open>
  The output of a sequence-classification model on a batch that carries labels: the
  supervised loss and the logits. A model is called on a batch in a state of the framework
  (module parameters, buffers, random-number generator) and returns its output, or raises,
  and the state after the call.
\<close>

record outputs =
  loss :: real
  logits :: tensor

type_synonym ('i, 'w) model = "'i \<Rightarrow> 'w \<Rightarrow> (error + outputs) \<times> 'w"

subsection \<open>KnowledgeDistillationTrainingArguments\<close>

record 'b KnowledgeDistillationTrainingArguments =
  base :: 'b
  alpha :: real
  temperature :: real

text \<open>
  \<^verbatim>\<open>__init__(self, *args, alpha=0.5, temperature=2.0, **kwargs)\<close>: the constructor of the
  base class runs on the remaining arguments (and may raise), then the two scalars are
  stored. A keyword that is not supplied is \<open>None\<close> here and takes its default.
\<close>

definition KnowledgeDistillationTrainingArguments_init ::
  "('a \<Rightarrow> error + 'b) \<Rightarrow> 'a \<Rightarrow> real option \<Rightarrow> real option
     \<Rightarrow> error + 'b KnowledgeDistillationTrainingArguments" where
  "KnowledgeDistillationTrainingArguments_init super_init args_kwargs alpha_kw temperature_kw =
     (case super_init args_kwargs of
        Inl e \<Rightarrow> Inl e
      | Inr b \<Rightarrow>
          Inr \<lparr> base = b,
                alpha = (case alpha_kw of None \<Rightarrow> 0.5 | Some a \<Rightarrow> a),
                temperature = (case temperature_kw of None \<Rightarrow> 2.0 | Some t \<Rightarrow> t) \<rparr>)"

subsection \<open>KnowledgeDistillationTrainer\<close>

record ('b, 'i, 'w) KnowledgeDistillationTrainer =
  args :: "'b KnowledgeDistillationTrainingArguments"
  teacher_model :: "('i, 'w) model option"

text \<open>
  \<^verbatim>\<open>__init__(self, *args, teacher_model=None, **kwargs)\<close>: the base trainer's constructor
  runs first (it sets \<^verbatim>\<open>self.args\<close>), then the teacher is stored.
\<close>

definition KnowledgeDistillationTrainer_init ::
  "('a \<Rightarrow> error + 'b KnowledgeDistillationTrainingArguments) \<Rightarrow> 'a \<Rightarrow> ('i, 'w) model option
     \<Rightarrow> error + ('b, 'i, 'w) KnowledgeDistillationTrainer" where
  "KnowledgeDistillationTrainer_init super_init args_kwargs teacher_model_kw =
     (case super_init args_kwargs of
        Inl e \<Rightarrow> Inl e
      | Inr a \<Rightarrow> Inr \<lparr> args = a, teacher_model = teacher_model_kw \<rparr>)"

text \<open>What \<^verbatim>\<open>compute_loss\<close> returns: the loss, with the student's outputs when asked.\<close>

datatype loss_result = Loss fval | LossAndOutputs fval outputs

text \<open>
  The distillation term \<^verbatim>\<open>loss_kd\<close> of \<^verbatim>\<open>compute_loss\<close>:
  \<^verbatim>\<open>temperature ** 2 * loss_fct(F.log_softmax(logits_student / temperature, dim=-1),
                                  F.softmax(logits_teacher / temperature, dim=-1))\<close>.
  The range of the floats is not modelled: in the program \<^verbatim>\<open>temperature ** 2\<close> raises an
  OverflowError for a temperature of magnitude beyond about \<open>1.3e154\<close>, and a quotient
  \<^verbatim>\<open>logits / temperature\<close> beyond the range of the tensor's floats is \<open>inf\<close>. Nothing below
  says that the loss is finite at a temperature other than \<open>0\<close>.
\<close>

definition loss_kd :: "real \<Rightarrow> tensor \<Rightarrow> tensor \<Rightarrow> error + fval" where
  "loss_kd T logits_student logits_teacher =
     (case KLDivLoss_batchmean (log_softmax (tensor_div logits_student T))
                               (softmax (tensor_div logits_teacher T)) of
        Inl e \<Rightarrow> Inl e
      | Inr d \<Rightarrow> Inr (nmul (Fin (T ^ 2)) d))"

definition compute_loss ::
  "('b, 'i, 'w) KnowledgeDistillationTrainer \<Rightarrow> ('i, 'w) model \<Rightarrow> 'i \<Rightarrow> bool \<Rightarrow> 'w
     \<Rightarrow> (error + loss_result) \<times> 'w" where
  "compute_loss self model inputs return_outputs w =
     (case model inputs w of
        (Inl e, w1) \<Rightarrow> (Inl e, w1)
      | (Inr outputs_student, w1) \<Rightarrow>
          (let loss_ce = loss outputs_student;
               logits_student = logits outputs_student
           in case teacher_model self of
                None \<Rightarrow> (Inl NoneTypeNotCallable, w1)
              | Some teacher \<Rightarrow>
                  (case teacher inputs w1 of
                     (Inl e, w2) \<Rightarrow> (Inl e, w2)
                   | (Inr outputs_teacher, w2) \<Rightarrow>
                       (let logits_teacher = logits outputs_teacher
                        in case loss_kd (temperature (args self)) logits_student logits_teacher of
                             Inl e \<Rightarrow> (Inl e, w2)
                           | Inr kd \<Rightarrow>
                               (let loss = nadd (nmul (Fin (alpha (args self))) (Fin loss_ce))
                                                (nmul (Fin (1 - alpha (args self))) kd)
                                in (Inr (if return_outputs then LossAndOutputs loss outputs_student
                                         else Loss loss), w2))))))"

subsection \<open>The divergence term in the specification's words\<close>

text \<open>
  The specification describes the divergence term as follows: divide both sets of logits by
  \<open>T\<close>, take the softmax of each row (the softened distribution), and take the
  Kullback-Leibler divergence of the student's softened distribution from the teacher's,
  \<open>\<Sum> p * ln (p / q)\<close> with \<open>p\<close> the teacher's and \<open>q\<close> the student's probabilities,
  averaged over the rows of the batch. These definitions follow those words, not the code;
  they are compared with the code below.
\<close>

definition softened :: "real \<Rightarrow> real list \<Rightarrow> real list" where
  "softened T zs =
     (let ys = map (\<lambda>z. z / T) zs in map (\<lambda>y. exp y / sum_list (map exp ys)) ys)"

definition kl_divergence :: "real list \<Rightarrow> real list \<Rightarrow> real" where
  "kl_divergence p q = (\<Sum>(a, b)\<leftarrow>zip p q. a * ln (a / b))"

definition distillation_divergence :: "real \<Rightarrow> tensor \<Rightarrow> tensor \<Rightarrow> real" where
  "distillation_divergence T teacher student =
     (\<Sum>(t, s)\<leftarrow>zip teacher student. kl_divergence (softened T t) (softened T s))
       / real (length student)"

text \<open>The specification's domain of the two hyperparameters: \<open>\<alpha> \<in> [0,1]\<close> and \<open>T > 0\<close>.\<close>

definition in_hyperparameter_domain :: "real \<Rightarrow> real \<Rightarrow> bool" where
  "in_hyperparameter_domain a T \<longleftrightarrow> 0 \<le> a \<and> a \<le> 1 \<and> 0 < T"

subsection \<open>A concrete run\<close>

text \<open>
  A two-class student whose logits do not depend on the labels and whose loss is the
  cross-entropy of its row of logits at the label, two teachers, and a framework state in
  which a forward pass counts its calls and writes nothing else.
\<close>

record framework_state =
  student_weights :: "real list"
  teacher_weights :: "real list"
  forward_calls :: nat

definition example_state :: framework_state where
  "example_state = \<lparr> student_weights = [1 / 10], teacher_weights = [3 / 10], forward_calls = 0 \<rparr>"

definition example_batch :: "string \<rightharpoonup> nat list" where
  "example_batch = [''input_ids'' \<mapsto> [101, 2054, 102], ''attention_mask'' \<mapsto> [1, 1, 1],
                    ''labels'' \<mapsto> [0]]"

definition example_student :: "(string \<rightharpoonup> nat list, framework_state) model" where
  "example_student inputs w =
     (Inr \<lparr> loss = (if inputs ''labels'' = Some [0] then ln 10 else ln (10 / 9)),
            logits = [[0, 2 * ln 3]] \<rparr>,
      w\<lparr> forward_calls := forward_calls w + 1 \<rparr>)"

definition example_teacher :: "(string \<rightharpoonup> nat list, framework_state) model" where
  "example_teacher inputs w =
     (Inr \<lparr> loss = 0, logits = [[0, 2 * ln 3]] \<rparr>, w\<lparr> forward_calls := forward_calls w + 1 \<rparr>)"

definition other_teacher :: "(string \<rightharpoonup> nat list, framework_state) model" where
  "other_teacher inputs w =
     (Inr \<lparr> loss = 0, logits = [[0, 0]] \<rparr>, w\<lparr> forward_calls := forward_calls w + 1 \<rparr>)"

definition example_trainer ::
  "real \<Rightarrow> real \<Rightarrow> (string \<rightharpoonup> nat list, framework_state) model option
     \<Rightarrow> (unit, string \<rightharpoonup> nat list, framework_state) KnowledgeDistillationTrainer" where
  "example_trainer a T tm = \<lparr> args = \<lparr> base = (), alpha = a, temperature = T \<rparr>, teacher_model = tm \<rparr>"

definition example_trainer_super_init ::
  "unit \<Rightarrow> error + unit KnowledgeDistillationTrainingArguments" where
  "example_trainer_super_init u = Inr \<lparr> base = (), alpha = 1 / 2, temperature = 2 \<rparr>"

definition example_super_init :: "unit \<Rightarrow> error + unit" where
  "example_super_init u = Inr ()"

definition failing_super_init :: "unit \<Rightarrow> error + unit" where
  "failing_super_init u = Inl (FrameworkError ''output_dir'')"

section \<open>Properties of the framework functions\<close>

lemma finite_row_map_Fin: "finite_row (map Fin xs) = Some xs"
  by (induction xs) simp_all

lemma nsum_map_Fin: "nsum (map Fin xs) = Fin (sum_list xs)"
  by (induction xs) simp_all

lemma nsum_append: "nsum (xs @ ys) = nadd (nsum xs) (nsum ys)"
proof (induction xs)
  case Nil
  show ?case by (cases "nsum ys") simp_all
next
  case (Cons x xs)
  show ?case
    by (cases x; cases "nsum xs"; cases "nsum ys") (simp_all add: Cons)
qed

lemma nsum_concat_rows:
  "(\<And>r. r \<in> set rows \<Longrightarrow> nsum (F r) = Fin (g r))
     \<Longrightarrow> nsum (concat (map F rows)) = Fin (sum_list (map g rows))"
  by (induction rows) (simp_all add: nsum_append)

lemma sum_exp_nonneg: "0 \<le> sum_list (map exp (xs :: real list))"
  by (rule sum_list_nonneg) auto

lemma sum_exp_pos: "xs \<noteq> [] \<Longrightarrow> 0 < sum_list (map exp (xs :: real list))"
  by (cases xs) (simp_all add: add_pos_nonneg sum_exp_nonneg)

lemma tensor_div_nonzero:
  "d \<noteq> 0 \<Longrightarrow> tensor_div t d = map (\<lambda>r. map Fin (map (\<lambda>x. x / d) r)) t"
  by (simp add: tensor_div_def)

lemma softmax_row_Fin:
  "softmax_row (map Fin xs) = map Fin (map (\<lambda>x. exp x / sum_list (map exp xs)) xs)"
  by (simp add: softmax_row_def finite_row_map_Fin)

lemma log_softmax_row_Fin:
  "log_softmax_row (map Fin xs) = map Fin (map (\<lambda>x. x - ln (sum_list (map exp xs))) xs)"
  by (simp add: log_softmax_row_def finite_row_map_Fin)

lemma kl_row:
  fixes s t :: "real list"
  shows "nsum (map (\<lambda>(i, t). kl_point i t)
            (zip (log_softmax_row (map Fin s)) (softmax_row (map Fin t))))
         = Fin (kl_divergence (map (\<lambda>x. exp x / sum_list (map exp t)) t)
                              (map (\<lambda>x. exp x / sum_list (map exp s)) s))"
proof -
  let ?S = "sum_list (map exp s)" and ?T = "sum_list (map exp t)"
  have point: "exp y / ?T * (ln (exp y / ?T) - (x - ln ?S))
             = exp y / ?T * ln ((exp y / ?T) / (exp x / ?S))"
    if "(x, y) \<in> set (zip s t)" for x y
  proof -
    from that have "s \<noteq> []" "t \<noteq> []" by auto
    then have S: "0 < ?S" and T: "0 < ?T" by (simp_all add: sum_exp_pos)
    have p: "exp y / ?T \<noteq> 0" and q: "exp x / ?S \<noteq> 0"
      using S T by simp_all
    have "ln ((exp y / ?T) / (exp x / ?S)) = ln (exp y / ?T) - ln (exp x / ?S)"
      using p q by (simp only: ln_div) simp
    also have "ln (exp x / ?S) = ln (exp x) - ln ?S"
      using S by (simp only: ln_div) simp
    finally show ?thesis by simp
  qed
  have "map (\<lambda>(i, t). kl_point i t) (zip (log_softmax_row (map Fin s)) (softmax_row (map Fin t)))
      = map Fin (map (\<lambda>(x, y). exp y / ?T * (ln (exp y / ?T) - (x - ln ?S))) (zip s t))"
    by (simp add: softmax_row_Fin log_softmax_row_Fin zip_map_map split_def)
  also have "nsum \<dots> = Fin (\<Sum>(x, y)\<leftarrow>zip s t. exp y / ?T * (ln (exp y / ?T) - (x - ln ?S)))"
    by (rule nsum_map_Fin)
  also have "map (\<lambda>(x, y). exp y / ?T * (ln (exp y / ?T) - (x - ln ?S))) (zip s t)
           = map (\<lambda>(x, y). exp y / ?T * ln ((exp y / ?T) / (exp x / ?S))) (zip s t)"
  proof (rule map_cong[OF refl])
    fix z assume z: "z \<in> set (zip s t)"
    obtain x y where xy: "z = (x, y)" by (cases z)
    show "(case z of (x, y) \<Rightarrow> exp y / ?T * (ln (exp y / ?T) - (x - ln ?S)))
        = (case z of (x, y) \<Rightarrow> exp y / ?T * ln ((exp y / ?T) / (exp x / ?S)))"
      using point[of x y] z unfolding xy by (simp only: prod.case)
  qed
  also have "sum_list \<dots> = kl_divergence (map (\<lambda>x. exp x / ?T) t) (map (\<lambda>x. exp x / ?S) s)"
    unfolding kl_divergence_def
    by (simp add: zip_map_map split_def zip_commute[of t s] o_def)
  finally show ?thesis .
qed


lemma finite_row_length: "finite_row xs = Some rs \<Longrightarrow> length rs = length xs"
proof (induction xs arbitrary: rs)
  case Nil
  then show ?case by simp
next
  case (Cons x xs)
  then show ?case by (cases x) auto
qed

lemma length_softmax_row: "length (softmax_row xs) = length xs"
  by (simp add: softmax_row_def finite_row_length split: option.split)

lemma length_log_softmax_row: "length (log_softmax_row xs) = length xs"
  by (simp add: log_softmax_row_def finite_row_length split: option.split)

lemma shape_softmax: "shape (softmax t) = shape t"
  by (simp add: shape_def softmax_def length_softmax_row o_def)

lemma shape_log_softmax: "shape (log_softmax t) = shape t"
  by (simp add: shape_def log_softmax_def length_log_softmax_row o_def)

lemma shape_tensor_div: "shape (tensor_div t d) = shape t"
  by (simp add: shape_def tensor_div_def o_def)

lemma softened_eq: "softened T zs = map (\<lambda>x. exp x / sum_list (map exp (map (\<lambda>z. z / T) zs))) (map (\<lambda>z. z / T) zs)"
  by (simp add: softened_def Let_def)

lemma KLDivLoss_softened:
  assumes T: "T \<noteq> 0" and sh: "shape ls = shape lt"
  shows "KLDivLoss_batchmean (log_softmax (tensor_div ls T)) (softmax (tensor_div lt T))
       = Inr (ndiv_count
                (Fin (\<Sum>(t, s)\<leftarrow>zip lt ls. kl_divergence (softened T t) (softened T s)))
                (length ls))"
proof -
  let ?d = "\<lambda>r. map (\<lambda>x. x / T) r"
  let ?I = "log_softmax (tensor_div ls T)" and ?P = "softmax (tensor_div lt T)"
  have I: "?I = map (\<lambda>r. log_softmax_row (map Fin (?d r))) ls"
    using T by (simp add: log_softmax_def tensor_div_nonzero o_def)
  have P: "?P = map (\<lambda>r. softmax_row (map Fin (?d r))) lt"
    using T by (simp add: softmax_def tensor_div_nonzero o_def)
  have shp: "shape ?I = shape ?P"
    using sh by (simp add: shape_softmax shape_log_softmax shape_tensor_div)
  have rows: "map (\<lambda>(ri, rt). map (\<lambda>(i, t). kl_point i t) (zip ri rt)) (zip ?I ?P)
            = map (\<lambda>(s, t). map (\<lambda>(i, t). kl_point i t)
                     (zip (log_softmax_row (map Fin (?d s))) (softmax_row (map Fin (?d t)))))
                (zip ls lt)"
    by (simp add: I P zip_map_map split_def)
  have "nsum (concat (map (\<lambda>(ri, rt). map (\<lambda>(i, t). kl_point i t) (zip ri rt)) (zip ?I ?P)))
      = Fin (\<Sum>(s, t)\<leftarrow>zip ls lt. kl_divergence (softened T t) (softened T s))"
    unfolding rows
  proof (rule nsum_concat_rows)
    fix r assume "r \<in> set (zip ls lt)"
    obtain s t where r: "r = (s, t)" by (cases r)
    show "nsum (case r of (s, t) \<Rightarrow> map (\<lambda>(i, t). kl_point i t)
                 (zip (log_softmax_row (map Fin (?d s))) (softmax_row (map Fin (?d t)))))
        = Fin (case r of (s, t) \<Rightarrow> kl_divergence (softened T t) (softened T s))"
      unfolding r prod.case softened_eq by (rule kl_row)
  qed
  also have "(\<Sum>(s, t)\<leftarrow>zip ls lt. kl_divergence (softened T t) (softened T s))
           = (\<Sum>(t, s)\<leftarrow>zip lt ls. kl_divergence (softened T t) (softened T s))"
    by (simp add: zip_commute[of lt ls] split_def o_def)
  finally show ?thesis
    using shp by (simp add: KLDivLoss_batchmean_def log_softmax_def tensor_div_def)
qed

lemma loss_kd_finite:
  assumes "T \<noteq> 0" and "shape ls = shape lt" and "ls \<noteq> []"
  shows "loss_kd T ls lt = Inr (Fin (T ^ 2 * distillation_divergence T lt ls))"
  using assms by (simp add: loss_kd_def KLDivLoss_softened distillation_divergence_def)

lemma kl_divergence_same: "kl_divergence p p = 0"
proof -
  have "map (\<lambda>(a, b). a * ln (a / b)) (zip p p) = map (\<lambda>_. 0 :: real) p"
    by (simp add: zip_same_conv_map)
  then show ?thesis
    by (simp add: kl_divergence_def)
qed

lemma tensor_div_zero: "tensor_div t 0 = map (map (\<lambda>_. NonFinite)) t"
  by (simp add: tensor_div_def)

lemma softmax_row_nonfinite: "softmax_row (map (\<lambda>_. NonFinite) r) = map (\<lambda>_. NonFinite) r"
  by (cases r) (simp_all add: softmax_row_def)

lemma log_softmax_row_nonfinite:
  "log_softmax_row (map (\<lambda>_. NonFinite) r) = map (\<lambda>_. NonFinite) r"
  by (cases r) (simp_all add: log_softmax_row_def)

lemma nsum_all_nonfinite: "xs \<noteq> [] \<Longrightarrow> \<forall>x\<in>set xs. x = NonFinite \<Longrightarrow> nsum xs = NonFinite"
  by (cases xs) simp_all

lemma zip_rows_length:
  assumes "map length ls = map length lt"
  shows "map (\<lambda>(a, b). length (zip a b)) (zip ls lt) = map length ls"
proof -
  from assms have "length ls = length lt"
    by (rule map_eq_imp_length_eq)
  then show ?thesis
    using assms by (induction ls lt rule: list_induct2) simp_all
qed

lemma KLDivLoss_zero_temperature:
  assumes sh: "shape ls = shape lt" and ne: "concat ls \<noteq> []"
  shows "KLDivLoss_batchmean (log_softmax (tensor_div ls 0)) (softmax (tensor_div lt 0))
       = Inr NonFinite"
proof -
  let ?N = "map (\<lambda>_. NonFinite :: fval)"
  let ?I = "log_softmax (tensor_div ls 0)" and ?P = "softmax (tensor_div lt 0)"
  let ?terms = "concat (map (\<lambda>(ri, rt). map (\<lambda>(i, t). kl_point i t) (zip ri rt)) (zip ?I ?P))"
  have I: "?I = map ?N ls"
    by (simp add: log_softmax_def tensor_div_zero log_softmax_row_nonfinite o_def)
  have P: "?P = map ?N lt"
    by (simp add: softmax_def tensor_div_zero softmax_row_nonfinite o_def)
  have shp: "shape ?I = shape ?P"
    using sh by (simp add: shape_softmax shape_log_softmax shape_tensor_div)
  have all: "\<forall>x\<in>set ?terms. x = NonFinite"
    unfolding I P by (auto simp: zip_map_map dest!: set_zip_leftD)
  have "length ?terms = sum_list (map (\<lambda>(a, b). length (zip a b)) (zip ls lt))"
    unfolding I P by (simp add: length_concat zip_map_map o_def split_def)
  also have "map (\<lambda>(a, b). length (zip a b)) (zip ls lt) = map length ls"
    using sh unfolding shape_def by (rule zip_rows_length)
  also have "sum_list (map length ls) = length (concat ls)"
    by (simp add: length_concat)
  finally have "length ?terms = length (concat ls)" .
  moreover have "0 < length (concat ls)"
    using ne by blast
  ultimately have "0 < length ?terms"
    by (simp only:)
  then have "?terms \<noteq> []"
    by blast
  then have "nsum ?terms = NonFinite"
    using all by (rule nsum_all_nonfinite)
  then show ?thesis
    using shp by (simp add: KLDivLoss_batchmean_def)
qed

lemma compute_loss_run:
  assumes "model inputs w = (Inr out_s, w1)"
    and "teacher_model self = Some teacher"
    and "teacher inputs w1 = (Inr out_t, w2)"
    and "loss_kd (temperature (args self)) (logits out_s) (logits out_t) = Inr (Fin k)"
  shows "compute_loss self model inputs False w
       = (Inr (Loss (Fin (alpha (args self) * loss out_s + (1 - alpha (args self)) * k))), w2)"
  using assms by (simp add: compute_loss_def Let_def)

text \<open>The divergence of the concrete run with the second teacher, at temperature 2.\<close>

lemma example_KLDivLoss:
  "KLDivLoss_batchmean (log_softmax (tensor_div [[0, 2 * ln 3]] 2)) (softmax (tensor_div [[0, 0]] 2))
     = Inr (Fin (ln 2 - ln 3 / 2))"
proof -
  have l4: "ln (4 :: real) = 2 * ln 2"
    using ln_mult[of "2 :: real" 2] by simp
  have l2: "ln (1 / 2 :: real) = - ln 2"
    by (simp add: ln_div)
  show ?thesis
    by (simp add: KLDivLoss_batchmean_def log_softmax_def softmax_def tensor_div_def shape_def
        softmax_row_def log_softmax_row_def l4 l2 diff_divide_distrib)
qed

text \<open>The forward passes of the concrete run.\<close>

lemma example_student_run:
  "example_student example_batch example_state
     = (Inr \<lparr> loss = ln 10, logits = [[0, 2 * ln 3]] \<rparr>, example_state\<lparr> forward_calls := 1 \<rparr>)"
  by (simp add: example_student_def example_batch_def example_state_def)

lemma example_teacher_run:
  "example_teacher example_batch (example_state\<lparr> forward_calls := 1 \<rparr>)
     = (Inr \<lparr> loss = 0, logits = [[0, 2 * ln 3]] \<rparr>, example_state\<lparr> forward_calls := 2 \<rparr>)"
  by (simp add: example_teacher_def example_state_def)

lemma other_teacher_run:
  "other_teacher example_batch (example_state\<lparr> forward_calls := 1 \<rparr>)
     = (Inr \<lparr> loss = 0, logits = [[0, 0]] \<rparr>, example_state\<lparr> forward_calls := 2 \<rparr>)"
  by (simp add: other_teacher_def example_state_def)

lemma example_trainer_sel:
  "teacher_model (example_trainer a T tm) = tm"
  "alpha (args (example_trainer a T tm)) = a"
  "temperature (args (example_trainer a T tm)) = T"
  by (simp_all add: example_trainer_def)

text \<open>The run with the first teacher at temperature 2: the logits agree, the term is 0.\<close>

lemma example_run_at_two:
  "compute_loss (example_trainer (1 / 2) 2 (Some example_teacher)) example_student example_batch
      False example_state
     = (Inr (Loss (Fin (ln 10 / 2))), example_state\<lparr> forward_calls := 2 \<rparr>)"
proof -
  let ?self = "example_trainer (1 / 2) 2 (Some example_teacher)"
  let ?l = "[[0, 2 * ln 3]] :: tensor"
  have "loss_kd 2 ?l ?l = Inr (Fin (2 ^ 2 * distillation_divergence 2 ?l ?l))"
    by (rule loss_kd_finite) (simp_all add: shape_def)
  moreover have "distillation_divergence 2 ?l ?l = 0"
    by (simp add: distillation_divergence_def kl_divergence_same)
  ultimately have "loss_kd 2 ?l ?l = Inr (Fin 0)"
    by simp
  then have kd: "loss_kd (temperature (args ?self))
                   (logits \<lparr> loss = ln 10, logits = [[0, 2 * ln 3]] \<rparr>)
                   (logits \<lparr> loss = 0, logits = [[0, 2 * ln 3]] \<rparr>) = Inr (Fin 0)"
    by (simp add: example_trainer_sel)
  show ?thesis
    using compute_loss_run[where model = example_student and inputs = example_batch
        and w = example_state and self = ?self and teacher = example_teacher,
        OF example_student_run example_trainer_sel(1) example_teacher_run kd]
    by (simp add: example_trainer_sel)
qed

text \<open>The same run on the batch with another label.\<close>

lemma example_student_relabelled:
  "example_student (example_batch(''labels'' \<mapsto> [1])) example_state
     = (Inr \<lparr> loss = ln (10 / 9), logits = [[0, 2 * ln 3]] \<rparr>,
        example_state\<lparr> forward_calls := 1 \<rparr>)"
  by (simp add: example_student_def example_state_def)

lemma other_teacher_relabelled:
  "other_teacher (example_batch(''labels'' \<mapsto> [1])) (example_state\<lparr> forward_calls := 1 \<rparr>)
     = (Inr \<lparr> loss = 0, logits = [[0, 0]] \<rparr>, example_state\<lparr> forward_calls := 2 \<rparr>)"
  by (simp add: other_teacher_def example_state_def)

section \<open>The configuration\<close>

text \<open>
  C3, as the code has it. Constructed with neither keyword, the configuration holds
  \<open>alpha = 0.5\<close> and \<open>temperature = 2.0\<close>; a supplied value is stored as it is, whatever it
  is, and nothing is checked: the constructor fails only where the constructor of the base
  class fails, and adds nothing to the base configuration but the two scalars.
\<close>

theorem init_stores_scalars_unchecked:
  "(super_init a = Inr b \<longrightarrow>
      KnowledgeDistillationTrainingArguments_init super_init a None None
        = Inr \<lparr> base = b, alpha = 1 / 2, temperature = 2 \<rparr>
      \<and> KnowledgeDistillationTrainingArguments_init super_init a (Some x) None
        = Inr \<lparr> base = b, alpha = x, temperature = 2 \<rparr>
      \<and> KnowledgeDistillationTrainingArguments_init super_init a None (Some t)
        = Inr \<lparr> base = b, alpha = 1 / 2, temperature = t \<rparr>
      \<and> KnowledgeDistillationTrainingArguments_init super_init a (Some x) (Some t)
        = Inr \<lparr> base = b, alpha = x, temperature = t \<rparr>)
   \<and> (super_init a = Inl e \<longrightarrow>
        KnowledgeDistillationTrainingArguments_init super_init a alpha_kw temperature_kw = Inl e)"
  by (simp add: KnowledgeDistillationTrainingArguments_init_def)

theorem init_stores_scalars_unchecked_witness:
  "KnowledgeDistillationTrainingArguments_init example_super_init () None None
     = Inr \<lparr> base = (), alpha = 1 / 2, temperature = 2 \<rparr>
   \<and> KnowledgeDistillationTrainingArguments_init example_super_init () (Some 1) None
     = Inr \<lparr> base = (), alpha = 1, temperature = 2 \<rparr>
   \<and> KnowledgeDistillationTrainingArguments_init failing_super_init () (Some 1) None
     = Inl (FrameworkError ''output_dir'')"
  using init_stores_scalars_unchecked[where super_init = example_super_init and a = "()"
      and b = "()" and x = 1]
    init_stores_scalars_unchecked[where super_init = failing_super_init and a = "()"
      and e = "FrameworkError ''output_dir''" and alpha_kw = "Some 1" and temperature_kw = None]
  by (simp add: example_super_init_def failing_super_init_def)

text \<open>
  The constructor does not validate: \<open>alpha = 2\<close> and \<open>temperature = -1\<close>, both outside the
  specification's domain, are accepted and stored.
\<close>

theorem init_accepts_values_outside_domain:
  "\<not> in_hyperparameter_domain 2 (- 1)
   \<and> KnowledgeDistillationTrainingArguments_init example_super_init () (Some 2) (Some (- 1))
     = Inr \<lparr> base = (), alpha = 2, temperature = - 1 \<rparr>"
  by (simp add: in_hyperparameter_domain_def KnowledgeDistillationTrainingArguments_init_def
      example_super_init_def)

section \<open>The loss step\<close>

text \<open>
  C1. Whenever both forward passes return and the divergence term evaluates to \<open>D\<close>, the
  loss returned by \<^verbatim>\<open>compute_loss\<close> is \<open>alpha * L_ce + (1 - alpha) * T\<^sup>2 * D\<close>, where
  \<open>L_ce\<close> is the loss of the student's outputs; with \<^verbatim>\<open>return_outputs\<close> the same
  number is returned together with the student's outputs.
\<close>

theorem compute_loss_blend:
  assumes "model inputs w = (Inr out_s, w1)"
    and "teacher_model self = Some teacher"
    and "teacher inputs w1 = (Inr out_t, w2)"
    and "KLDivLoss_batchmean (log_softmax (tensor_div (logits out_s) (temperature (args self))))
                             (softmax (tensor_div (logits out_t) (temperature (args self))))
         = Inr (Fin D)"
  shows "compute_loss self model inputs False w
           = (Inr (Loss (Fin (alpha (args self) * loss out_s
                              + (1 - alpha (args self)) * (temperature (args self) ^ 2 * D)))), w2)
       \<and> compute_loss self model inputs True w
           = (Inr (LossAndOutputs
                     (Fin (alpha (args self) * loss out_s
                           + (1 - alpha (args self)) * (temperature (args self) ^ 2 * D))) out_s), w2)"
  using assms by (simp_all add: compute_loss_def loss_kd_def Let_def)

theorem compute_loss_blend_witness:
  "compute_loss (example_trainer (1 / 2) 2 (Some other_teacher)) example_student example_batch False
      example_state
     = (Inr (Loss (Fin (1 / 2 * ln 10 + (1 - 1 / 2) * (2 ^ 2 * (ln 2 - ln 3 / 2))))),
        example_state\<lparr> forward_calls := 2 \<rparr>)"
  using compute_loss_blend[of example_student example_batch example_state
      "\<lparr> loss = ln 10, logits = [[0, 2 * ln 3]] \<rparr>" "example_state\<lparr> forward_calls := 1 \<rparr>"
      "example_trainer (1 / 2) 2 (Some other_teacher)" other_teacher
      "\<lparr> loss = 0, logits = [[0, 0]] \<rparr>" "example_state\<lparr> forward_calls := 2 \<rparr>"
      "ln 2 - ln 3 / 2"]
  by (simp add: example_KLDivLoss example_student_def example_batch_def example_state_def
      example_trainer_def other_teacher_def)

text \<open>
  C2. For a temperature \<open>T \<noteq> 0\<close>, logits of equal shapes and a batch with at least one row,
  the term that \<^verbatim>\<open>compute_loss\<close> obtains from \<^verbatim>\<open>KLDivLoss\<close> is the divergence of the
  specification: both sets of logits divided by \<open>T\<close>, the Kullback-Leibler divergence of the
  student's softened distribution from the teacher's, averaged over the batch. It is
  multiplied by \<open>T\<^sup>2\<close> before it is blended into the loss.
\<close>

theorem divergence_term_refines_spec:
  assumes "model inputs w = (Inr out_s, w1)"
    and "teacher_model self = Some teacher"
    and "teacher inputs w1 = (Inr out_t, w2)"
    and "temperature (args self) \<noteq> 0"
    and "shape (logits out_s) = shape (logits out_t)"
    and "logits out_s \<noteq> []"
  shows "KLDivLoss_batchmean (log_softmax (tensor_div (logits out_s) (temperature (args self))))
                             (softmax (tensor_div (logits out_t) (temperature (args self))))
           = Inr (Fin (distillation_divergence (temperature (args self)) (logits out_t) (logits out_s)))
       \<and> loss_kd (temperature (args self)) (logits out_s) (logits out_t)
           = Inr (Fin (temperature (args self) ^ 2
                       * distillation_divergence (temperature (args self)) (logits out_t) (logits out_s)))
       \<and> compute_loss self model inputs False w
           = (Inr (Loss (Fin (alpha (args self) * loss out_s
                  + (1 - alpha (args self))
                    * (temperature (args self) ^ 2
                       * distillation_divergence (temperature (args self))
                           (logits out_t) (logits out_s))))), w2)"
proof -
  let ?T = "temperature (args self)"
  have kl: "KLDivLoss_batchmean (log_softmax (tensor_div (logits out_s) ?T))
                                (softmax (tensor_div (logits out_t) ?T))
          = Inr (Fin (distillation_divergence ?T (logits out_t) (logits out_s)))"
    using assms(4-6) by (simp add: KLDivLoss_softened distillation_divergence_def)
  have kd: "loss_kd ?T (logits out_s) (logits out_t)
          = Inr (Fin (?T ^ 2 * distillation_divergence ?T (logits out_t) (logits out_s)))"
    using assms(4-6) by (rule loss_kd_finite)
  have "compute_loss self model inputs False w
      = (Inr (Loss (Fin (alpha (args self) * loss out_s
              + (1 - alpha (args self))
                * (?T ^ 2 * distillation_divergence ?T (logits out_t) (logits out_s))))), w2)"
    using assms(1-3) kd by (simp add: compute_loss_def Let_def)
  with kl kd show ?thesis by (simp only: simp_thms)
qed

theorem divergence_term_refines_spec_witness:
  "compute_loss (example_trainer (1 / 2) 2 (Some other_teacher)) example_student example_batch False
      example_state
     = (Inr (Loss (Fin (1 / 2 * ln 10
          + (1 - 1 / 2) * (2 ^ 2 * distillation_divergence 2 [[0, 0]] [[0, 2 * ln 3]])))),
        example_state\<lparr> forward_calls := 2 \<rparr>)"
proof -
  let ?self = "example_trainer (1 / 2) 2 (Some other_teacher)"
  have T: "temperature (args ?self) \<noteq> 0"
    by (simp add: example_trainer_sel)
  have sh: "shape (logits \<lparr> loss = ln 10, logits = [[0, 2 * ln 3]] \<rparr>)
          = shape (logits \<lparr> loss = 0, logits = [[0, 0]] \<rparr>)"
    by (simp add: shape_def)
  have ne: "logits \<lparr> loss = ln 10, logits = [[0, 2 * ln 3]] \<rparr> \<noteq> []"
    by simp
  show ?thesis
    using divergence_term_refines_spec[where model = example_student and inputs = example_batch
        and w = example_state and self = ?self and teacher = other_teacher,
        OF example_student_run example_trainer_sel(1) other_teacher_run T sh ne]
    by (simp add: example_trainer_sel)
qed

text \<open>
  C4. With \<open>alpha = 1\<close> (and \<open>T \<noteq> 0\<close>, logits of equal shapes, a batch with at least one
  row) the loss returned by \<^verbatim>\<open>compute_loss\<close> is exactly the student's supervised loss, and
  it is the same with any other teacher whose logits have the student's shape: the teacher's
  logits contribute nothing.
\<close>

theorem alpha_one_supervised_only:
  assumes "alpha (args self) = 1"
    and "model inputs w = (Inr out_s, w1)"
    and "teacher_model self = Some teacher"
    and "teacher inputs w1 = (Inr out_t, w2)"
    and "temperature (args self) \<noteq> 0"
    and "logits out_s \<noteq> []"
    and "shape (logits out_s) = shape (logits out_t)"
    and "teacher' inputs w1 = (Inr out_t', w2')"
    and "shape (logits out_s) = shape (logits out_t')"
  shows "fst (compute_loss self model inputs False w) = Inr (Loss (Fin (loss out_s)))
       \<and> fst (compute_loss self model inputs True w) = Inr (LossAndOutputs (Fin (loss out_s)) out_s)
       \<and> fst (compute_loss (self\<lparr> teacher_model := Some teacher' \<rparr>) model inputs return_outputs w)
           = fst (compute_loss self model inputs return_outputs w)"
proof -
  let ?T = "temperature (args self)"
  have kd: "loss_kd ?T (logits out_s) (logits out_t)
          = Inr (Fin (?T ^ 2 * distillation_divergence ?T (logits out_t) (logits out_s)))"
    using assms(5,7,6) by (rule loss_kd_finite)
  have kd': "loss_kd ?T (logits out_s) (logits out_t')
           = Inr (Fin (?T ^ 2 * distillation_divergence ?T (logits out_t') (logits out_s)))"
    using assms(5,9,6) by (rule loss_kd_finite)
  have run: "fst (compute_loss self model inputs ro w)
           = Inr (if ro then LossAndOutputs (Fin (loss out_s)) out_s else Loss (Fin (loss out_s)))"
    for ro
    using assms(1-4) kd by (simp add: compute_loss_def Let_def)
  have run': "fst (compute_loss (self\<lparr> teacher_model := Some teacher' \<rparr>) model inputs ro w)
           = Inr (if ro then LossAndOutputs (Fin (loss out_s)) out_s else Loss (Fin (loss out_s)))"
    for ro
    using assms(1,2,8) kd' by (simp add: compute_loss_def Let_def)
  show ?thesis
    using run[of False] run[of True] run[of return_outputs] run'[of return_outputs] by simp
qed

theorem alpha_one_supervised_only_witness:
  "fst (compute_loss (example_trainer 1 2 (Some example_teacher)) example_student example_batch False
          example_state) = Inr (Loss (Fin (ln 10)))
   \<and> fst (compute_loss (example_trainer 1 2 (Some example_teacher)
               \<lparr> teacher_model := Some other_teacher \<rparr>) example_student example_batch False
            example_state)
     = fst (compute_loss (example_trainer 1 2 (Some example_teacher)) example_student example_batch
              False example_state)"
proof -
  let ?self = "example_trainer 1 2 (Some example_teacher)"
  have a: "alpha (args ?self) = 1" and T: "temperature (args ?self) \<noteq> 0"
    by (simp_all add: example_trainer_sel)
  have ne: "logits \<lparr> loss = ln 10, logits = [[0, 2 * ln 3]] \<rparr> \<noteq> []"
    by simp
  have sh: "shape (logits \<lparr> loss = ln 10, logits = [[0, 2 * ln 3]] \<rparr>)
          = shape (logits \<lparr> loss = 0, logits = [[0, 2 * ln 3]] \<rparr>)"
    by (simp add: shape_def)
  have sh': "shape (logits \<lparr> loss = ln 10, logits = [[0, 2 * ln 3]] \<rparr>)
          = shape (logits \<lparr> loss = 0, logits = [[0, 0]] \<rparr>)"
    by (simp add: shape_def)
  show ?thesis
    using alpha_one_supervised_only[where model = example_student and inputs = example_batch
        and w = example_state and self = ?self and teacher = example_teacher
        and teacher' = other_teacher and return_outputs = False,
        OF a example_student_run example_trainer_sel(1) example_teacher_run T ne sh
           other_teacher_run sh']
    by simp
qed

text \<open>
  C5. With \<open>alpha = 0\<close> the loss returned by \<^verbatim>\<open>compute_loss\<close> is exactly \<open>T\<^sup>2 * D\<close>, the
  distillation term. It does not change when only the labels of the batch change, the
  logits of student and teacher being computed from the other fields of the batch.
\<close>

theorem alpha_zero_pure_distillation:
  fixes inputs :: "string \<rightharpoonup> 'v"
  assumes "alpha (args self) = 0"
    and "teacher_model self = Some teacher"
    and "model inputs w = (Inr out_s, w1)"
    and "teacher inputs w1 = (Inr out_t, w2)"
    and "KLDivLoss_batchmean (log_softmax (tensor_div (logits out_s) (temperature (args self))))
                             (softmax (tensor_div (logits out_t) (temperature (args self))))
         = Inr D"
    and "model (inputs(''labels'' \<mapsto> l)) w = (Inr out_s', w1')"
    and "teacher (inputs(''labels'' \<mapsto> l)) w1' = (Inr out_t', w2')"
    and "logits out_s' = logits out_s"
    and "logits out_t' = logits out_t"
  shows "fst (compute_loss self model inputs False w)
           = Inr (Loss (nmul (Fin (temperature (args self) ^ 2)) D))
       \<and> fst (compute_loss self model (inputs(''labels'' \<mapsto> l)) False w)
           = fst (compute_loss self model inputs False w)"
proof -
  have z: "nadd (Fin 0) (nmul (Fin 1) k) = k" for k
    by (cases k) simp_all
  show ?thesis
    using assms by (simp add: compute_loss_def loss_kd_def Let_def z)
qed

theorem alpha_zero_pure_distillation_witness:
  "fst (compute_loss (example_trainer 0 2 (Some other_teacher)) example_student example_batch False
          example_state)
     = Inr (Loss (nmul (Fin (2 ^ 2)) (Fin (ln 2 - ln 3 / 2))))
   \<and> fst (compute_loss (example_trainer 0 2 (Some other_teacher)) example_student
            (example_batch(''labels'' \<mapsto> [1])) False example_state)
     = fst (compute_loss (example_trainer 0 2 (Some other_teacher)) example_student example_batch
              False example_state)"
proof -
  let ?self = "example_trainer 0 2 (Some other_teacher)"
  have a: "alpha (args ?self) = 0"
    by (simp add: example_trainer_sel)
  have kl: "KLDivLoss_batchmean
              (log_softmax (tensor_div (logits \<lparr> loss = ln 10, logits = [[0, 2 * ln 3]] \<rparr>)
                             (temperature (args ?self))))
              (softmax (tensor_div (logits \<lparr> loss = 0, logits = [[0, 0]] \<rparr>)
                         (temperature (args ?self))))
          = Inr (Fin (ln 2 - ln 3 / 2))"
    by (simp add: example_trainer_sel example_KLDivLoss)
  have s: "logits \<lparr> loss = ln (10 / 9), logits = [[0, 2 * ln 3]] \<rparr>
         = logits \<lparr> loss = ln 10, logits = [[0, 2 * ln 3]] \<rparr>"
    by simp
  have t: "logits \<lparr> loss = 0, logits = [[0, 0]] \<rparr> = logits \<lparr> loss = 0, logits = [[0, 0 :: real]] \<rparr>"
    by simp
  show ?thesis
    using alpha_zero_pure_distillation[where model = example_student and inputs = example_batch
        and w = example_state and self = ?self and teacher = other_teacher and l = "[1]",
        OF a example_trainer_sel(1) example_student_run other_teacher_run kl
           example_student_relabelled other_teacher_relabelled s t]
    by (simp add: example_trainer_sel)
qed

text \<open>
  C6. When the teacher's logits are the student's logits (with \<open>T \<noteq> 0\<close> and a batch with at
  least one row), the divergence term is \<open>0\<close> and the loss returned by \<^verbatim>\<open>compute_loss\<close>
  is exactly \<open>alpha * L_ce\<close>.
\<close>

theorem identical_logits_zero_divergence:
  assumes "model inputs w = (Inr out_s, w1)"
    and "teacher_model self = Some teacher"
    and "teacher inputs w1 = (Inr out_t, w2)"
    and "logits out_t = logits out_s"
    and "temperature (args self) \<noteq> 0"
    and "logits out_s \<noteq> []"
  shows "KLDivLoss_batchmean (log_softmax (tensor_div (logits out_s) (temperature (args self))))
                             (softmax (tensor_div (logits out_t) (temperature (args self))))
           = Inr (Fin 0)
       \<and> compute_loss self model inputs False w
           = (Inr (Loss (Fin (alpha (args self) * loss out_s))), w2)
       \<and> compute_loss self model inputs True w
           = (Inr (LossAndOutputs (Fin (alpha (args self) * loss out_s)) out_s), w2)"
proof -
  let ?T = "temperature (args self)"
  have kl: "KLDivLoss_batchmean (log_softmax (tensor_div (logits out_s) ?T))
                                (softmax (tensor_div (logits out_t) ?T)) = Inr (Fin 0)"
    using assms(4-6)
    by (simp add: KLDivLoss_softened zip_same_conv_map kl_divergence_same o_def)
  then have kd: "loss_kd ?T (logits out_s) (logits out_t) = Inr (Fin 0)"
    by (simp add: loss_kd_def)
  from assms(1-3) kd kl show ?thesis
    by (simp add: compute_loss_def Let_def)
qed

theorem identical_logits_zero_divergence_witness:
  "compute_loss (example_trainer (1 / 2) 2 (Some example_teacher)) example_student example_batch
      False example_state
     = (Inr (Loss (Fin (1 / 2 * ln 10))), example_state\<lparr> forward_calls := 2 \<rparr>)"
proof -
  let ?self = "example_trainer (1 / 2) 2 (Some example_teacher)"
  have T: "temperature (args ?self) \<noteq> 0"
    by (simp add: example_trainer_sel)
  have same: "logits \<lparr> loss = 0, logits = [[0, 2 * ln 3]] \<rparr>
            = logits \<lparr> loss = ln 10, logits = [[0, 2 * ln 3]] \<rparr>"
    by simp
  have ne: "logits \<lparr> loss = ln 10, logits = [[0, 2 * ln 3]] \<rparr> \<noteq> []"
    by simp
  show ?thesis
    using identical_logits_zero_divergence[where model = example_student
        and inputs = example_batch and w = example_state and self = ?self
        and teacher = example_teacher,
        OF example_student_run example_trainer_sel(1) example_teacher_run same T ne]
    by (simp add: example_trainer_sel)
qed

section \<open>Preconditions of the loss step\<close>

text \<open>
  C9. The constructor of the configuration accepts every temperature, zero and negative
  values included, and \<^verbatim>\<open>compute_loss\<close> divides the logits by it unguarded. With
  temperature \<open>0\<close> (both forward passes returning logits of one shape with at least one
  entry) every entry of the divided logits is not finite and so is the loss that is returned:
  a finite loss is returned only with a temperature other than \<open>0\<close>.
\<close>

theorem temperature_unguarded:
  assumes "super_init a = Inr b"
    and "model inputs w = (Inr out_s, w1)"
    and "teacher_model self = Some teacher"
    and "teacher inputs w1 = (Inr out_t, w2)"
    and "shape (logits out_s) = shape (logits out_t)"
    and "concat (logits out_s) \<noteq> []"
  shows "KnowledgeDistillationTrainingArguments_init super_init a alpha_kw (Some t)
           = Inr \<lparr> base = b, alpha = (case alpha_kw of None \<Rightarrow> 1 / 2 | Some x \<Rightarrow> x),
                   temperature = t \<rparr>
       \<and> (temperature (args self) = 0 \<longrightarrow>
            (\<forall>r\<in>set (tensor_div (logits out_s) (temperature (args self))). \<forall>x\<in>set r. x = NonFinite)
            \<and> compute_loss self model inputs False w = (Inr (Loss NonFinite), w2))
       \<and> (compute_loss self model inputs False w = (Inr (Loss (Fin y)), w2) \<longrightarrow>
            temperature (args self) \<noteq> 0)"
proof -
  let ?T = "temperature (args self)"
  have init: "KnowledgeDistillationTrainingArguments_init super_init a alpha_kw (Some t)
           = Inr \<lparr> base = b, alpha = (case alpha_kw of None \<Rightarrow> 1 / 2 | Some x \<Rightarrow> x),
                   temperature = t \<rparr>"
    using assms(1)
    by (simp add: KnowledgeDistillationTrainingArguments_init_def split: option.split)
  have zero: "(\<forall>r\<in>set (tensor_div (logits out_s) ?T). \<forall>x\<in>set r. x = NonFinite)
            \<and> compute_loss self model inputs False w = (Inr (Loss NonFinite), w2)"
    if T: "?T = 0"
  proof -
    have "loss_kd ?T (logits out_s) (logits out_t) = Inr NonFinite"
      using assms(5,6) by (simp add: T loss_kd_def KLDivLoss_zero_temperature)
    then have "compute_loss self model inputs False w = (Inr (Loss NonFinite), w2)"
      using assms(2-4) by (simp add: compute_loss_def Let_def)
    moreover have "\<forall>r\<in>set (tensor_div (logits out_s) ?T). \<forall>x\<in>set r. x = NonFinite"
      by (auto simp: T tensor_div_zero)
    ultimately show ?thesis by (simp only: simp_thms)
  qed
  have only: "?T \<noteq> 0"
    if fin: "compute_loss self model inputs False w = (Inr (Loss (Fin y)), w2)"
  proof
    assume "?T = 0"
    then have "compute_loss self model inputs False w = (Inr (Loss NonFinite), w2)"
      using zero by blast
    with fin show False by simp
  qed
  from init zero only show ?thesis by blast
qed

theorem temperature_unguarded_witness:
  "KnowledgeDistillationTrainingArguments_init example_super_init () None (Some 0)
     = Inr \<lparr> base = (), alpha = 1 / 2, temperature = 0 \<rparr>
   \<and> compute_loss (example_trainer (1 / 2) 0 (Some example_teacher)) example_student example_batch
        False example_state
     = (Inr (Loss NonFinite), example_state\<lparr> forward_calls := 2 \<rparr>)
   \<and> compute_loss (example_trainer (1 / 2) 2 (Some example_teacher)) example_student example_batch
        False example_state
     = (Inr (Loss (Fin (ln 10 / 2))), example_state\<lparr> forward_calls := 2 \<rparr>)
   \<and> temperature (args (example_trainer (1 / 2) 2 (Some example_teacher))) \<noteq> 0"
proof -
  let ?zero = "example_trainer (1 / 2) 0 (Some example_teacher)"
  let ?two = "example_trainer (1 / 2) 2 (Some example_teacher)"
  have i: "example_super_init () = Inr ()"
    by (simp add: example_super_init_def)
  have sh: "shape (logits \<lparr> loss = ln 10, logits = [[0, 2 * ln 3]] \<rparr>)
          = shape (logits \<lparr> loss = 0, logits = [[0, 2 * ln 3]] \<rparr>)"
    by (simp add: shape_def)
  have ne: "concat (logits \<lparr> loss = ln 10, logits = [[0, 2 * ln 3]] \<rparr>) \<noteq> []"
    by simp
  note at_zero = temperature_unguarded[where super_init = example_super_init and a = "()"
        and alpha_kw = None and t = 0
        and model = example_student and inputs = example_batch and w = example_state
        and self = ?zero and teacher = example_teacher,
        OF i example_student_run example_trainer_sel(1) example_teacher_run sh ne]
  note at_two = temperature_unguarded[where super_init = example_super_init and a = "()"
        and alpha_kw = None and t = 0 and y = "ln 10 / 2"
        and model = example_student and inputs = example_batch and w = example_state
        and self = ?two and teacher = example_teacher,
        OF i example_student_run example_trainer_sel(1) example_teacher_run sh ne]
  from at_zero have 1: "KnowledgeDistillationTrainingArguments_init example_super_init () None (Some 0)
      = Inr \<lparr> base = (), alpha = 1 / 2, temperature = 0 \<rparr>"
    by simp
  from at_zero have 2: "compute_loss ?zero example_student example_batch False example_state
      = (Inr (Loss NonFinite), example_state\<lparr> forward_calls := 2 \<rparr>)"
    by (simp add: example_trainer_sel)
  have 3: "compute_loss ?two example_student example_batch False example_state
      = (Inr (Loss (Fin (ln 10 / 2))), example_state\<lparr> forward_calls := 2 \<rparr>)"
    by (rule example_run_at_two)
  from at_two 3 have 4: "temperature (args ?two) \<noteq> 0"
    by blast
  from 1 2 3 4 show ?thesis by (simp only: simp_thms)
qed

text \<open>
  C10. A trainer constructed without a teacher holds \<^verbatim>\<open>None\<close>. Every call of its
  \<^verbatim>\<open>compute_loss\<close> then fails: once the student's forward pass has returned, calling the
  teacher raises the TypeError. A loss is returned only by a trainer that holds a teacher.
\<close>

theorem missing_teacher_fails:
  "(super_init a = Inr ar \<longrightarrow>
      KnowledgeDistillationTrainer_init super_init a None = Inr \<lparr> args = ar, teacher_model = None \<rparr>)
   \<and> (teacher_model self = None \<longrightarrow>
        (\<exists>e. fst (compute_loss self model inputs return_outputs w) = Inl e)
        \<and> (model inputs w = (Inr out_s, w1) \<longrightarrow>
             compute_loss self model inputs return_outputs w = (Inl NoneTypeNotCallable, w1)))
   \<and> (fst (compute_loss self model inputs return_outputs w) = Inr r \<longrightarrow>
        teacher_model self \<noteq> None)"
  by (auto simp: KnowledgeDistillationTrainer_init_def compute_loss_def Let_def
      split: prod.splits sum.splits option.splits)

theorem missing_teacher_fails_witness:
  "KnowledgeDistillationTrainer_init example_trainer_super_init () None
     = Inr (example_trainer (1 / 2) 2 None)
   \<and> compute_loss (example_trainer (1 / 2) 2 None) example_student example_batch False example_state
     = (Inl NoneTypeNotCallable, example_state\<lparr> forward_calls := 1 \<rparr>)"
proof -
  let ?self = "example_trainer (1 / 2) 2 None
                 :: (unit, string \<rightharpoonup> nat list, framework_state) KnowledgeDistillationTrainer"
  have s: "example_trainer_super_init () = Inr \<lparr> base = (), alpha = 1 / 2, temperature = 2 \<rparr>"
    by (simp add: example_trainer_super_init_def)
  have n: "teacher_model ?self = None"
    by (simp add: example_trainer_sel)
  note m = missing_teacher_fails[where super_init = example_trainer_super_init and a = "()"
      and ar = "\<lparr> base = (), alpha = 1 / 2, temperature = 2 \<rparr>"
      and self = ?self and model = example_student
      and inputs = example_batch and w = example_state and return_outputs = False
      and ?out_s = "\<lparr> loss = ln 10, logits = [[0, 2 * ln 3]] \<rparr>"
      and ?w1.0 = "example_state\<lparr> forward_calls := 1 \<rparr>"]
  from m s have 1: "KnowledgeDistillationTrainer_init example_trainer_super_init () None
      = Inr (\<lparr> args = \<lparr> base = (), alpha = 1 / 2, temperature = 2 \<rparr>, teacher_model = None \<rparr>
              :: (unit, string \<rightharpoonup> nat list, framework_state) KnowledgeDistillationTrainer)"
    by blast
  from m n example_student_run
  have 2: "compute_loss ?self example_student example_batch False example_state
      = (Inl NoneTypeNotCallable, example_state\<lparr> forward_calls := 1 \<rparr>)"
    by blast
  from 1 2 show ?thesis
    by (simp add: example_trainer_def)
qed

end
